theory Spec2Isabelle
  imports Main "HOL-Library.Sublist"
begin

section \<open>Strings of the runtime\<close>

text \<open>
  The scanned text is the \<open>latin1\<close> view of a byte buffer: every character is one code
  unit below 256. Strings are therefore modelled as \<^typ>\<open>string\<close>, one \<^typ>\<open>char\<close> per
  code unit; this holds for the patterns too, so that what is proved of a pattern is
  proved of patterns of code units below 256, and a pattern with a code unit above that
  range is outside the model. The three characters that cannot be written inside a
  literal get a name.
\<close>

definition backslash :: char where
  "backslash = CHR 0x5C"

definition dquote :: char where
  "dquote = CHR 0x22"

definition newline :: char where
  "newline = CHR 0x0A"

text \<open>
  \<open>String.prototype.toLowerCase\<close> on code units below 256: the ASCII capitals and the
  Latin-1 capitals \<open>0xC0..0xDE\<close> (without the multiplication sign \<open>0xD7\<close>) move up by 32,
  every other code unit stays.
\<close>

definition toLowerCaseChar :: "char \<Rightarrow> char" where
  "toLowerCaseChar ch =
     (let n = (of_char ch :: nat)
      in if (65 \<le> n \<and> n \<le> 90) \<or> (192 \<le> n \<and> n \<le> 222 \<and> n \<noteq> 215)
         then char_of (n + 32) else ch)"

definition toLowerCase :: "string \<Rightarrow> string" where
  "toLowerCase s = map toLowerCaseChar s"

text \<open>\<open>String.prototype.includes\<close>: the argument occurs as a contiguous run.\<close>

definition includesStr :: "string \<Rightarrow> string \<Rightarrow> bool" where
  "includesStr s t = sublist t s"

section \<open>The regular-expression engine on literal sources\<close>

text \<open>
  \<open>SyntaxCharacter\<close> of the ECMAScript pattern grammar: the fourteen characters that
  are operators when they stand unescaped in a pattern source.
\<close>

definition syntaxCharacter :: "char \<Rightarrow> bool" where
  "syntaxCharacter c \<longleftrightarrow> c \<in> set ''^$.*+?()[]{}|'' \<or> c = backslash"

text \<open>
  A pattern source is literal when it is built from pattern characters (anything but a
  syntax character, matching itself) and identity escapes of syntax characters (a
  backslash and a syntax character, matching that character). \<open>literalSource\<close> reads
  such a source back to the characters it matches; \<open>None\<close> is every other source:
  one that uses an operator or a class, and one that is malformed (a trailing backslash
  is a \<open>SyntaxError\<close>).
\<close>

fun literalSource :: "string \<Rightarrow> string option" where
  "literalSource [] = Some []"
| "literalSource [c] = (if syntaxCharacter c then None else Some [c])"
| "literalSource (c # d # cs) =
     (if c = backslash
      then (if syntaxCharacter d then map_option ((#) d) (literalSource cs) else None)
      else if syntaxCharacter c then None
      else map_option ((#) c) (literalSource (d # cs)))"

text \<open>
  \<open>Canonicalize\<close> of the engine under the \<open>i\<close> flag without the \<open>u\<close> flag: the code
  unit of the upper-case form when that form is a single code unit, and never an ASCII
  code unit for a character outside ASCII. Below 256 that moves \<open>a..z\<close> and
  \<open>0xE0..0xFE\<close> (without the division sign \<open>0xF7\<close>) down by 32, sends the micro sign to
  \<open>0x39C\<close> and \<open>0xFF\<close> to \<open>0x178\<close>, and leaves the sharp s (whose upper-case form has two
  code units) and everything else alone.
\<close>

definition canonicalize :: "char \<Rightarrow> nat" where
  "canonicalize ch =
     (let n = (of_char ch :: nat)
      in if (97 \<le> n \<and> n \<le> 122) \<or> (224 \<le> n \<and> n \<le> 254 \<and> n \<noteq> 247) then n - 32
         else if n = 181 then 924
         else if n = 255 then 376
         else n)"

text \<open>The matcher of a literal under the \<open>i\<close> flag at one start position.\<close>

fun matchHere :: "string \<Rightarrow> string \<Rightarrow> bool" where
  "matchHere [] input = True"
| "matchHere (p # ps) [] = False"
| "matchHere (p # ps) (c # cs) = (canonicalize p = canonicalize c \<and> matchHere ps cs)"

text \<open>\<open>RegExp.prototype.test\<close> without the sticky flag: every start position in turn.\<close>

fun searchFrom :: "string \<Rightarrow> string \<Rightarrow> bool" where
  "searchFrom lit [] = matchHere lit []"
| "searchFrom lit (c # cs) = (matchHere lit (c # cs) \<or> searchFrom lit cs)"

text \<open>
  \<open>new RegExp(source, 'i').test(input)\<close>, with \<open>None\<close> when the constructor or the test
  throws. On a literal source the result is the search above; what the engine does with
  every other source is the parameter \<open>rest\<close>.
\<close>

definition regExpTest :: "(string \<Rightarrow> string \<Rightarrow> bool option) \<Rightarrow> string \<Rightarrow> string \<Rightarrow> bool option" where
  "regExpTest rest source input =
     (case literalSource source of
        Some lit \<Rightarrow> Some (searchFrom lit input)
      | None \<Rightarrow> rest source input)"

section \<open>The signature matcher\<close>

record Finding =
  pattern :: string
  category :: string

text \<open>
  \<open>malwarePatterns\<close> is imported from a module that is not part of the sources at hand:
  it is a parameter, the properties of the object in the order of their declaration,
  each a category with its array of patterns.
\<close>

type_synonym library = "(string \<times> string list) list"

text \<open>
  \<open>for (const category in malwarePatterns)\<close> does not visit the properties in the order
  of their declaration when a name is an array index, that is the decimal form, without
  a leading zero, of an integer below \<open>2^32 - 1\<close>: such names come first, in ascending
  numeric order, and the other names follow in the order of their declaration.
\<close>

definition indexValue :: "string \<Rightarrow> nat" where
  "indexValue s = foldl (\<lambda>n c. 10 * n + (of_char c - 48)) 0 s"

definition isArrayIndex :: "string \<Rightarrow> bool" where
  "isArrayIndex s \<longleftrightarrow>
     s \<noteq> [] \<and> list_all (\<lambda>c. 48 \<le> (of_char c :: nat) \<and> (of_char c :: nat) \<le> 57) s
     \<and> (s = ''0'' \<or> take 1 s \<noteq> ''0'') \<and> indexValue s < 2 ^ 32 - 1"

definition forInOrder :: "library \<Rightarrow> library" where
  "forInOrder malwarePatterns =
     sort_key (\<lambda>entry. indexValue (fst entry)) (filter (\<lambda>entry. isArrayIndex (fst entry)) malwarePatterns)
     @ filter (\<lambda>entry. \<not> isArrayIndex (fst entry)) malwarePatterns"

text \<open>\<open>pattern.replace(/[.*+?^${}()|[\]\\]/g, '\\$&')\<close>\<close>

definition escapeRegExp :: "string \<Rightarrow> string" where
  "escapeRegExp p =
     concat (map (\<lambda>c. if c \<in> set ''.*+?^${}()|[]'' \<or> c = backslash then [backslash, c] else [c]) p)"

definition MAX_CONTENT_LENGTH_FOR_SCAN :: nat where
  "MAX_CONTENT_LENGTH_FOR_SCAN = 50 * 1024 * 1024"

definition patternKey :: "string \<Rightarrow> string \<Rightarrow> string" where
  "patternKey cat p = cat @ '':'' @ p"

text \<open>
  One turn of the inner loop. The state is the pair of \<open>findings\<close> and
  \<open>checkedPatterns\<close>; \<open>engine\<close> is \<open>new RegExp(_, 'i').test(_)\<close> of the runtime, \<open>None\<close>
  when it throws, which is the \<open>catch\<close> branch.
\<close>

definition scanPattern ::
  "(string \<Rightarrow> string \<Rightarrow> bool option) \<Rightarrow> string \<Rightarrow> string \<Rightarrow>
   Finding list \<times> string set \<Rightarrow> string \<Rightarrow> Finding list \<times> string set" where
  "scanPattern engine content cat st p =
     (let findings = fst st; checkedPatterns = snd st;
          isLargeContent = (length content > MAX_CONTENT_LENGTH_FOR_SCAN);
          key = patternKey cat p
      in if key \<in> checkedPatterns then st
         else (case engine (escapeRegExp p) content of
                 Some True \<Rightarrow>
                   (findings @ [\<lparr>pattern = p, category = cat\<rparr>], insert key checkedPatterns)
               | Some False \<Rightarrow> st
               | None \<Rightarrow>
                   if \<not> isLargeContent \<and> includesStr (toLowerCase content) (toLowerCase p)
                   then (if key \<notin> checkedPatterns
                         then (findings @ [\<lparr>pattern = p, category = cat\<rparr>],
                               insert key checkedPatterns)
                         else st)
                   else st))"

definition scanCategory ::
  "(string \<Rightarrow> string \<Rightarrow> bool option) \<Rightarrow> string \<Rightarrow>
   Finding list \<times> string set \<Rightarrow> string \<times> string list \<Rightarrow> Finding list \<times> string set" where
  "scanCategory engine content st entry =
     foldl (scanPattern engine content (fst entry)) st (snd entry)"

definition findMaliciousPatterns ::
  "(string \<Rightarrow> string \<Rightarrow> bool option) \<Rightarrow> library \<Rightarrow> string \<Rightarrow> Finding list" where
  "findMaliciousPatterns engine malwarePatterns content =
     fst (foldl (scanCategory engine content) ([], {}) (forInOrder malwarePatterns))"

section \<open>The scan as a function of the library's pairs\<close>

text \<open>The pairs of the library in the order of the nested iteration.\<close>

definition libraryPairs :: "library \<Rightarrow> (string \<times> string) list" where
  "libraryPairs malwarePatterns = concat (map (\<lambda>entry. map (Pair (fst entry)) (snd entry)) malwarePatterns)"

definition mkFinding :: "string \<times> string \<Rightarrow> Finding" where
  "mkFinding cp = \<lparr>pattern = snd cp, category = fst cp\<rparr>"

definition keyOf :: "string \<times> string \<Rightarrow> string" where
  "keyOf cp = patternKey (fst cp) (snd cp)"

text \<open>
  What the \<open>try\<close> and its \<open>catch\<close> decide for one pattern that is not skipped: the
  answer of the engine or, when the engine throws, the lower-case substring test on
  content that is not large.
\<close>

definition patternMatches :: "(string \<Rightarrow> string \<Rightarrow> bool option) \<Rightarrow> string \<Rightarrow> string \<Rightarrow> bool" where
  "patternMatches engine content p =
     (case engine (escapeRegExp p) content of
        Some b \<Rightarrow> b
      | None \<Rightarrow> \<not> length content > MAX_CONTENT_LENGTH_FOR_SCAN
                \<and> includesStr (toLowerCase content) (toLowerCase p))"

text \<open>The first pair of every composite key, the keys in \<open>seen\<close> left out.\<close>

fun keepFirstByKey :: "string set \<Rightarrow> (string \<times> string) list \<Rightarrow> (string \<times> string) list" where
  "keepFirstByKey seen [] = []"
| "keepFirstByKey seen (cp # cps) =
     (if keyOf cp \<in> seen then keepFirstByKey seen cps
      else cp # keepFirstByKey (insert (keyOf cp) seen) cps)"

text \<open>
  The declared order of the findings: the pairs of the library that match, categories
  in the order of their declaration and patterns in the order of their array, each
  composite key once.
\<close>

definition findingsInDeclaredOrder ::
  "(string \<Rightarrow> string \<Rightarrow> bool option) \<Rightarrow> library \<Rightarrow> string \<Rightarrow> Finding list" where
  "findingsInDeclaredOrder engine malwarePatterns content =
     map mkFinding
       (keepFirstByKey {}
          (filter (\<lambda>cp. patternMatches engine content (snd cp)) (libraryPairs malwarePatterns)))"

text \<open>
  The words of the specification for the match: the content contains, somewhere, a run
  of characters that is the pattern once both are put in lower case.
\<close>

definition caseInsensitiveSubstring :: "string \<Rightarrow> string \<Rightarrow> bool" where
  "caseInsensitiveSubstring p content \<longleftrightarrow>
     (\<exists>before run after. content = before @ run @ after
        \<and> toLowerCase run = toLowerCase p)"

section \<open>Runtime functions of the summary and the server action\<close>

text \<open>A thrown value: an \<open>Error\<close> with its message, or anything else.\<close>

datatype thrown = Error string | NotAnError

text \<open>\<open>e instanceof Error ? e.message : fallback\<close>\<close>

definition messageOr :: "string \<Rightarrow> thrown \<Rightarrow> string" where
  "messageOr fallback e = (case e of Error m \<Rightarrow> m | NotAnError \<Rightarrow> fallback)"

text \<open>A number inside a template literal: decimal digits, a minus sign when negative.\<close>

fun natToString :: "nat \<Rightarrow> string" where
  "natToString n =
     (if n < 10 then [char_of (48 + n)]
      else natToString (n div 10) @ [char_of (48 + n mod 10)])"

declare natToString.simps [simp del]

definition numberToString :: "int \<Rightarrow> string" where
  "numberToString i = (if i < 0 then CHR ''-'' # natToString (nat (- i)) else natToString (nat i))"

text \<open>\<open>lines.join('\n')\<close> and \<open>s.split('\n').length\<close>\<close>

fun joinLines :: "string list \<Rightarrow> string" where
  "joinLines [] = []"
| "joinLines [l] = l"
| "joinLines (l # m # ls) = l @ newline # joinLines (m # ls)"

definition splitLinesLength :: "string \<Rightarrow> int" where
  "splitLinesLength s = int (length (filter (\<lambda>c. c = newline) s)) + 1"

text \<open>
  \<open>/a|b|.../i.test(s)\<close> for alternatives that are plain words: one of them is found.
  A single alternative is \<open>/a/i.test(s)\<close>.
\<close>

definition testAnyIgnoreCase :: "string list \<Rightarrow> string \<Rightarrow> bool" where
  "testAnyIgnoreCase alternatives s = list_ex (\<lambda>lit. searchFrom lit s) alternatives"

text \<open>
  The dot of a pattern without the \<open>s\<close> flag matches every character but a line
  terminator; below 256 these are the line feed and the carriage return.
\<close>

definition lineTerminator :: "char \<Rightarrow> bool" where
  "lineTerminator c \<longleftrightarrow> c = newline \<or> c = CHR 0x0D"

text \<open>\<open>.*b\<close> under the \<open>i\<close> flag at one position: some run without a line terminator, then \<open>b\<close>.\<close>

fun matchDotStarThen :: "string \<Rightarrow> string \<Rightarrow> bool" where
  "matchDotStarThen b [] = matchHere b []"
| "matchDotStarThen b (c # cs) =
     (matchHere b (c # cs) \<or> (\<not> lineTerminator c \<and> matchDotStarThen b cs))"

text \<open>\<open>/a.*b/i.test(s)\<close> for plain words \<open>a\<close> and \<open>b\<close>\<close>

fun testDotStarIgnoreCase :: "string \<Rightarrow> string \<Rightarrow> string \<Rightarrow> bool" where
  "testDotStarIgnoreCase a b [] = (matchHere a [] \<and> matchDotStarThen b (drop (length a) []))"
| "testDotStarIgnoreCase a b (c # cs) =
     ((matchHere a (c # cs) \<and> matchDotStarThen b (drop (length a) (c # cs)))
      \<or> testDotStarIgnoreCase a b cs)"

text \<open>
  \<open>(.*?)\)\<close> at one position: the shortest run without a line terminator that a closing
  parenthesis follows; the run is the capture.
\<close>

fun lazyUntilParen :: "string \<Rightarrow> string option" where
  "lazyUntilParen [] = None"
| "lazyUntilParen (c # cs) =
     (if c = CHR '')'' then Some []
      else if lineTerminator c then None
      else map_option ((#) c) (lazyUntilParen cs))"

text \<open>\<open>/Base64 decoding failed: (.*?)\)/.exec(s)\<close>: the capture of the leftmost match.\<close>

fun execDecodingFailed :: "string \<Rightarrow> string option" where
  "execDecodingFailed [] = None"
| "execDecodingFailed (c # cs) =
     (if prefix ''Base64 decoding failed: '' (c # cs)
      then (case lazyUntilParen (drop (length ''Base64 decoding failed: '') (c # cs)) of
              Some reason \<Rightarrow> Some reason
            | None \<Rightarrow> execDecodingFailed cs)
      else execDecodingFailed cs)"

section \<open>The summary flow\<close>

text \<open>
  The prompt of the flow is the external collaborator: it throws (\<open>Inl\<close>), returns no
  output (\<open>Inr None\<close>) or returns the summary of its output. The functions that can
  reach the prompt return, beside their result, the texts that they sent to it, in the
  order of the calls: the empty list when the prompt was not called.
\<close>

type_synonym prompt = "string \<Rightarrow> thrown + string option"

definition threatVocabulary :: "string list" where
  "threatVocabulary =
     [''reverse shell'', ''malicious command'', ''suspicious network'', ''persistence'',
      ''destructive'', ''malware'', ''threat'', ''exploit'', ''credential dumping'',
      ''keylogger'', ''ransomware'']"

definition noSignificantThreats :: string where
  "noSignificantThreats =
     ''The analysis detected some common code patterns (like standard encryption) but found no indicators strongly suggesting malicious activity based on the current ruleset.''"

definition limitationNote :: string where
  "limitationNote = '' (Note: File analysis may have been limited due to content processing issues.)''"

text \<open>The guard of the post-processing step, its four tests in the order of the source.\<close>

definition overrideGuard :: "string \<Rightarrow> string \<Rightarrow> bool" where
  "overrideGuard summary analysisResults \<longleftrightarrow>
     \<not> testAnyIgnoreCase threatVocabulary summary
     \<and> includesStr analysisResults ''analysisResults''
     \<and> testAnyIgnoreCase [''AES'', ''DES'', ''RSA'', ''Base64''] analysisResults
     \<and> \<not> testAnyIgnoreCase [''malicious use'', ''obfuscate'', ''hide C2'', ''ransomware behavior'']
           analysisResults"

definition summarizeAnalysisResultsFlow :: "prompt \<Rightarrow> string \<Rightarrow> string \<times> string list" where
  "summarizeAnalysisResultsFlow summarizeAnalysisResultsPrompt analysisResults =
     (let caught = (\<lambda>errorMessage.
            ''Analysis detected '' @ numberToString (splitLinesLength analysisResults - 2)
            @ '' potential patterns. However, an error occurred while generating a detailed summary: ''
            @ errorMessage)
      in (case summarizeAnalysisResultsPrompt analysisResults of
            Inl e \<Rightarrow> caught (messageOr ''Unknown error during AI summary generation'' e)
          | Inr None \<Rightarrow> caught ''AI summary generation returned no output.''
          | Inr (Some summary) \<Rightarrow>
              if overrideGuard summary analysisResults
              then (if testAnyIgnoreCase [''performed on raw Base64'', ''decoding failed''] analysisResults
                    then noSignificantThreats @ limitationNote
                    else noSignificantThreats)
              else summary,
          [analysisResults]))"

definition noPatternsSummary :: string where
  "noPatternsSummary =
     ''The analysis did not detect any known malicious code patterns based on the current ruleset.''"

definition rawNoPatternsSummary :: "string \<Rightarrow> string" where
  "rawNoPatternsSummary reason =
     ''No known malicious patterns were detected in the raw file content '' @ reason
     @ ''. Base64 decoding failed, limiting the analysis.''"

text \<open>
  The exported function. Its result is awaited by the caller, which has a \<open>catch\<close> for
  it: the result is a sum. The flow catches what its prompt throws, so that every path
  of this model returns \<open>Inr\<close>.
\<close>

definition summarizeAnalysisResults :: "prompt \<Rightarrow> string \<Rightarrow> (thrown + string) \<times> string list" where
  "summarizeAnalysisResults summarizeAnalysisResultsPrompt analysisResults =
     (if testAnyIgnoreCase [''No known malicious patterns detected''] analysisResults
         \<and> \<not> testAnyIgnoreCase [''performed on raw Base64''] analysisResults
      then (Inr noPatternsSummary, [])
      else if testDotStarIgnoreCase ''No known malicious patterns detected''
                ''performed on raw Base64'' analysisResults
      then (let reason = (case execDecodingFailed analysisResults of
                            Some r \<Rightarrow> ''(Reason: '' @ r @ '')''
                          | None \<Rightarrow> ''(Unknown reason)'')
            in (Inr (rawNoPatternsSummary reason), []))
      else (let r = summarizeAnalysisResultsFlow summarizeAnalysisResultsPrompt analysisResults
            in (Inr (fst r), snd r)))"

section \<open>The server action\<close>

record AnalyzeFileInput =
  fileName :: string
  fileContent :: string
  contentType :: string

record AnalyzeFileOutput =
  findings :: "Finding list option"
  summary :: "string option"
  error :: "string option"

text \<open>The local variables that the decoding step sets.\<close>

record DecodeOutcome =
  fileDataToScan :: string
  decodedSuccessfully :: bool
  decodeError :: "string option"

text \<open>
  \<open>indexOf(',')\<close> and \<open>substring(commaIndex + 1)\<close>: what follows the first comma, the whole
  string when it has none.
\<close>

definition stripHeader :: "string \<Rightarrow> string" where
  "stripHeader content =
     (case dropWhile (\<lambda>c. c \<noteq> CHR '','') content of
        [] \<Rightarrow> content
      | comma # base64Data \<Rightarrow> base64Data)"

text \<open>
  The \<open>try\<close> around \<open>Buffer.from(base64Data, 'base64').toString('latin1')\<close>; the decoder of
  the runtime is the parameter \<open>decode\<close>, \<open>Inl\<close> when it throws.
\<close>

definition decodePayload :: "(string \<Rightarrow> thrown + string) \<Rightarrow> string \<Rightarrow> DecodeOutcome" where
  "decodePayload decode base64Data =
     (case decode base64Data of
        Inr decoded \<Rightarrow>
          \<lparr>fileDataToScan = decoded, decodedSuccessfully = True, decodeError = None\<rparr>
      | Inl e \<Rightarrow>
          \<lparr>fileDataToScan = base64Data, decodedSuccessfully = False,
           decodeError = Some (messageOr ''Unknown Base64 decoding error'' e)\<rparr>)"

definition detailedLine :: "Finding \<Rightarrow> string" where
  "detailedLine f =
     ''- Category: '' @ category f @ '', Detected Pattern: '' @ [dquote] @ pattern f @ [dquote]"

text \<open>The text handed to the summarizer, for findings and for none.\<close>

definition analysisResultsInputForAI :: "DecodeOutcome \<Rightarrow> Finding list \<Rightarrow> string" where
  "analysisResultsInputForAI d detectedPatterns =
     (let reason = (case decodeError d of Some e \<Rightarrow> e | None \<Rightarrow> ''undefined'')
      in if length detectedPatterns > 0
         then (let detailedResults = joinLines (map detailedLine detectedPatterns);
                   n = numberToString (int (length detectedPatterns))
               in if decodedSuccessfully d
                  then ''Analysis Results ('' @ n @ '' patterns found - Decoded Content Scan):''
                       @ newline # detailedResults
                  else ''Analysis Results ('' @ n
                       @ '' patterns found - Raw Base64 Scan due to decode error: '' @ reason
                       @ ''):'' @ newline # detailedResults)
         else if decodedSuccessfully d
         then ''Analysis Results: No known malicious patterns detected in the decoded file content based on the current ruleset.''
         else ''Analysis Results: No known malicious patterns detected in the raw file content (Base64 decoding failed: ''
              @ reason @ '').'')"

definition unexpectedError :: string where
  "unexpectedError =
     ''An unexpected error occurred on the server during analysis. Please check server logs for details.''"

text \<open>
  \<open>analyzeFileContent\<close>, with the library, the engine, the decoder and the prompt as
  parameters. The result comes with the texts sent to the prompt. A rejection of the
  summarizer has the inner \<open>catch\<close> when there are findings and the outer one, with the
  generic message, when there are none.
\<close>

definition analyzeFileContent ::
  "library \<Rightarrow> (string \<Rightarrow> string \<Rightarrow> bool option) \<Rightarrow> (string \<Rightarrow> thrown + string) \<Rightarrow> prompt \<Rightarrow>
   AnalyzeFileInput \<Rightarrow> AnalyzeFileOutput \<times> string list" where
  "analyzeFileContent malwarePatterns engine decode summarizeAnalysisResultsPrompt input =
     (if fileName input = [] \<or> fileContent input = [] \<or> contentType input = []
      then (\<lparr>findings = None, summary = None, error = Some ''Missing required input data.''\<rparr>, [])
      else
        let base64Data = stripHeader (fileContent input)
        in if base64Data = []
           then (\<lparr>findings = Some [],
                  summary = Some ''Analysis could not be performed: File content is empty.'',
                  error = Some ''File content appears to be empty after processing.''\<rparr>, [])
           else
             let d = decodePayload decode base64Data;
                 detectedPatterns = findMaliciousPatterns engine malwarePatterns (fileDataToScan d);
                 input' = analysisResultsInputForAI d detectedPatterns;
                 r = summarizeAnalysisResults summarizeAnalysisResultsPrompt input'
             in if length detectedPatterns > 0
                then (\<lparr>findings = Some detectedPatterns,
                       summary = Some (case fst r of
                           Inr s \<Rightarrow> s
                         | Inl e \<Rightarrow>
                             ''Potential threats detected (''
                             @ numberToString (int (length detectedPatterns))
                             @ '' patterns). Failed to generate detailed summary. Reason: ''
                             @ messageOr ''An unknown error occurred during AI summary'' e),
                       error = None\<rparr>, snd r)
                else (case fst r of
                        Inr s \<Rightarrow>
                          (\<lparr>findings = Some detectedPatterns, summary = Some s, error = None\<rparr>,
                           snd r)
                      | Inl e \<Rightarrow>
                          (\<lparr>findings = None, summary = None, error = Some unexpectedError\<rparr>,
                           snd r)))"

section \<open>The caller\<close>

record AnalysisResult =
  fileName_r :: string
  findings_r :: "Finding list"
  isMalicious :: bool
  summary_r :: "string option"
  error_r :: "string option"

text \<open>
  The body of the loop of \<open>handleAnalyze\<close> for one file: what is pushed on the results
  for the outcome of the \<open>try\<close>, which is the server's result or a thrown value.
\<close>

definition handleAnalyze :: "string \<Rightarrow> thrown + AnalyzeFileOutput \<Rightarrow> AnalysisResult" where
  "handleAnalyze name outcome =
     (case outcome of
        Inr serverResult \<Rightarrow>
          (case error serverResult of
             Some e \<Rightarrow>
               if e \<noteq> []
               then \<lparr>fileName_r = name, findings_r = [], isMalicious = True,
                     summary_r = Some (''Error analyzing file: '' @ e), error_r = Some e\<rparr>
               else \<lparr>fileName_r = name,
                     findings_r = (case findings serverResult of Some fs \<Rightarrow> fs | None \<Rightarrow> []),
                     isMalicious =
                       ((case findings serverResult of Some fs \<Rightarrow> length fs | None \<Rightarrow> 0) > 0),
                     summary_r = summary serverResult, error_r = None\<rparr>
           | None \<Rightarrow>
               \<lparr>fileName_r = name,
                findings_r = (case findings serverResult of Some fs \<Rightarrow> fs | None \<Rightarrow> []),
                isMalicious =
                  ((case findings serverResult of Some fs \<Rightarrow> length fs | None \<Rightarrow> 0) > 0),
                summary_r = summary serverResult, error_r = None\<rparr>)
      | Inl thrown \<Rightarrow>
          \<lparr>fileName_r = name, findings_r = [], isMalicious = True,
           summary_r = Some (''Failed to process file: '' @ messageOr ''Unknown error'' thrown),
           error_r = Some (messageOr ''An unknown error occurred during file processing.'' thrown)\<rparr>)"

section \<open>The decoder of the runtime\<close>

text \<open>
  Modelled from the spec: the byte-preserving decode of its section 4.1, in which each
  decoded byte is one character. The decoder is the call
  \<open>Buffer.from(base64Data, 'base64').toString('latin1')\<close> of the runtime's library, which
  is not code of the repository. The definitions of this section follow what the
  runtime documents for that call: the decoder is forgiving (characters outside the
  base64 alphabets, white space among them, are skipped, and the first \<open>=\<close> ends the
  input), and the only exception of the call is the one for a string longer than the
  longest string of the runtime. The action itself takes the decoder as a parameter.
\<close>

text \<open>
  The value of a character in the base64 alphabets that the decoder accepts (the
  standard one and the URL-safe one); \<open>None\<close> for every other character.
\<close>

definition unbase64 :: "char \<Rightarrow> nat option" where
  "unbase64 c =
     (let n = (of_char c :: nat)
      in if 65 \<le> n \<and> n \<le> 90 then Some (n - 65)
         else if 97 \<le> n \<and> n \<le> 122 then Some (n - 71)
         else if 48 \<le> n \<and> n \<le> 57 then Some (n + 4)
         else if c = CHR ''+'' \<or> c = CHR ''-'' then Some 62
         else if c = CHR ''/'' \<or> c = CHR ''_'' then Some 63
         else None)"

text \<open>
  The forgiving decoder of \<open>Buffer.from(s, 'base64')\<close>: it stops at the first \<open>=\<close>, skips
  every character outside the alphabets, and turns each group of four values into
  three bytes; a last group of three values gives two bytes, of two values one byte, and
  a single value none.
\<close>

definition base64Values :: "string \<Rightarrow> nat list" where
  "base64Values s = List.map_filter unbase64 (takeWhile (\<lambda>c. c \<noteq> CHR ''='') s)"

fun groupBytes :: "nat list \<Rightarrow> nat list" where
  "groupBytes (a # b # c # d # vs) =
     (a * 4 + b div 16) # ((b mod 16) * 16 + c div 4) # ((c mod 4) * 64 + d) # groupBytes vs"
| "groupBytes [a, b, c] = [a * 4 + b div 16, (b mod 16) * 16 + c div 4]"
| "groupBytes [a, b] = [a * 4 + b div 16]"
| "groupBytes vs = []"

definition MAX_STRING_LENGTH :: nat where
  "MAX_STRING_LENGTH = 2 ^ 29 - 24"

text \<open>
  \<open>Buffer.from(s, 'base64').toString('latin1')\<close>: one character per byte. The build of
  the string throws when the buffer is longer than the longest string of the runtime.
\<close>

definition bufferFromBase64ToLatin1 :: "string \<Rightarrow> thrown + string" where
  "bufferFromBase64ToLatin1 s =
     (let bytes = groupBytes (base64Values s)
      in if length bytes > MAX_STRING_LENGTH
         then Inl (Error ''Cannot create a string longer than 0x1fffffe8 characters'')
         else Inr (map char_of bytes))"

section \<open>Concrete inputs\<close>

text \<open>An engine that throws on every source, also as the rest of the literal engine.\<close>

definition throwingEngine :: "string \<Rightarrow> string \<Rightarrow> bool option" where
  "throwingEngine source input = None"

definition exampleEngine :: "string \<Rightarrow> string \<Rightarrow> bool option" where
  "exampleEngine = regExpTest throwingEngine"

definition exampleLibrary :: library where
  "exampleLibrary =
     [(''Encoding/Decoding'', [''AES'', ''DES'', ''RSA'', ''Base64'']),
      (''Credential Theft'', [''mimikatz'']),
      (''Reverse Shell'', [''reverse shell''])]"



text \<open>
  An engine that agrees with the literal engine and refuses sources of more than twenty
  characters, as an engine with a bound on the size of the expression does.
\<close>

definition sizeLimitedEngine :: "string \<Rightarrow> string \<Rightarrow> bool option" where
  "sizeLimitedEngine source input =
     (if length source > 20 then None else regExpTest throwingEngine source input)"

definition longPatternLibrary :: library where
  "longPatternLibrary = [(''Execution'', [''powershell -encodedcommand''])]"



definition emptyTextFile :: AnalyzeFileInput where
  "emptyTextFile =
     \<lparr>fileName = ''empty.txt'', fileContent = ''data:text/plain;base64,'',
      contentType = ''text/plain''\<rparr>"

definition emptyUntypedFile :: AnalyzeFileInput where
  "emptyUntypedFile =
     \<lparr>fileName = ''notes'', fileContent = ''data:application/octet-stream;base64,'',
      contentType = []\<rparr>"

definition helloFile :: AnalyzeFileInput where
  "helloFile =
     \<lparr>fileName = ''hello.txt'', fileContent = ''data:text/plain;base64,aGVsbG8='',
      contentType = ''text/plain''\<rparr>"

definition malformedFile :: AnalyzeFileInput where
  "malformedFile =
     \<lparr>fileName = ''broken.bin'', fileContent = ''data:text/plain;base64,@@ not base64 @@'',
      contentType = ''text/plain''\<rparr>"

definition failingPrompt :: prompt where
  "failingPrompt analysisResults = Inl (Error ''quota exceeded'')"

definition noContentFile :: AnalyzeFileInput where
  "noContentFile =
     \<lparr>fileName = ''notes.txt'', fileContent = [], contentType = ''text/plain''\<rparr>"

definition cryptoFile :: AnalyzeFileInput where
  "cryptoFile =
     \<lparr>fileName = ''tool.bin'',
      fileContent = ''data:application/octet-stream;base64,QUVTIERFUw=='',
      contentType = ''application/octet-stream''\<rparr>"

definition cryptoSummary :: string where
  "cryptoSummary =
     ''The file uses AES and DES encryption, which is sometimes used to hide data.''"

definition cryptoPrompt :: prompt where
  "cryptoPrompt analysisResults = Inr (Some cryptoSummary)"

definition cryptoEvidence :: string where
  "cryptoEvidence =
     ''Analysis Results (2 patterns found - Decoded Content Scan):''
     @ newline # ''- Category: Encoding/Decoding, Detected Pattern: '' @ dquote # ''AES'' @ dquote
     # newline # ''- Category: Encoding/Decoding, Detected Pattern: '' @ dquote # ''DES'' @ [dquote]"

definition threatFile :: AnalyzeFileInput where
  "threatFile =
     \<lparr>fileName = ''dropper.bin'',
      fileContent = ''data:application/octet-stream;base64,cnVuIG1pbWlrYXR6IHRoZW4gb3BlbiBhIHJldmVyc2Ugc2hlbGw='',
      contentType = ''application/octet-stream''\<rparr>"

definition threatEvidence :: string where
  "threatEvidence =
     ''Analysis Results (2 patterns found - Decoded Content Scan):''
     @ newline # ''- Category: Credential Theft, Detected Pattern: '' @ dquote # ''mimikatz'' @ dquote
     # newline # ''- Category: Reverse Shell, Detected Pattern: '' @ dquote # ''reverse shell'' @ [dquote]"


section \<open>The iteration of the scan\<close>

lemma scanPattern_eq:
  "scanPattern engine content cat (fs, ck) p =
     (if patternKey cat p \<in> ck then (fs, ck)
      else if patternMatches engine content p
      then (fs @ [mkFinding (cat, p)], insert (patternKey cat p) ck)
      else (fs, ck))"
  by (simp add: scanPattern_def patternMatches_def mkFinding_def Let_def
           split: option.splits bool.splits)

lemma scanCategory_pairs:
  "scanCategory engine content st entry =
     foldl (\<lambda>s cp. scanPattern engine content (fst cp) s (snd cp)) st
       (map (Pair (fst entry)) (snd entry))"
  by (simp add: scanCategory_def foldl_map)

lemma scanLibrary_pairs:
  "foldl (scanCategory engine content) st lib =
     foldl (\<lambda>s cp. scanPattern engine content (fst cp) s (snd cp)) st (libraryPairs lib)"
proof (induction lib arbitrary: st)
  case Nil
  show ?case by (simp add: libraryPairs_def)
next
  case (Cons entry lib)
  have "libraryPairs (entry # lib) = map (Pair (fst entry)) (snd entry) @ libraryPairs lib"
    by (simp add: libraryPairs_def)
  moreover have "foldl (scanCategory engine content) st (entry # lib) =
      foldl (\<lambda>s cp. scanPattern engine content (fst cp) s (snd cp))
        (scanCategory engine content st entry) (libraryPairs lib)"
    by (simp add: Cons.IH)
  ultimately show ?case
    by (simp add: scanCategory_pairs [of engine content st entry])
qed

lemma scanPairs_closed:
  "foldl (\<lambda>s cp. scanPattern engine content (fst cp) s (snd cp)) (fs, ck) cps =
     (fs @ map mkFinding (keepFirstByKey ck (filter (\<lambda>cp. patternMatches engine content (snd cp)) cps)),
      ck \<union> keyOf ` set (keepFirstByKey ck (filter (\<lambda>cp. patternMatches engine content (snd cp)) cps)))"
proof (induction cps arbitrary: fs ck)
  case Nil
  show ?case by simp
next
  case (Cons cp cps)
  show ?case
    by (cases cp) (simp add: scanPattern_eq Cons.IH keyOf_def)
qed

lemma set_forInOrder: "set (forInOrder lib) = set lib"
  by (auto simp: forInOrder_def)

lemma set_libraryPairs_forInOrder: "set (libraryPairs (forInOrder lib)) = set (libraryPairs lib)"
  by (simp add: libraryPairs_def set_forInOrder)


lemma findMaliciousPatterns_closed:
  "findMaliciousPatterns engine lib content
     = findingsInDeclaredOrder engine (forInOrder lib) content"
  by (simp add: findMaliciousPatterns_def findingsInDeclaredOrder_def scanLibrary_pairs
        scanPairs_closed)

lemma keepFirstByKey_keys:
  "distinct (map keyOf (keepFirstByKey seen cps))
     \<and> keyOf ` set (keepFirstByKey seen cps) \<inter> seen = {}"
proof (induction cps arbitrary: seen)
  case Nil
  show ?case by simp
next
  case (Cons cp cps)
  from Cons.IH [of seen] Cons.IH [of "insert (keyOf cp) seen"]
  show ?case by auto
qed



lemma inj_mkFinding: "inj mkFinding"
  by (auto simp: inj_on_def mkFinding_def prod_eq_iff)

lemma distinct_findingsInDeclaredOrder:
  "distinct (findingsInDeclaredOrder engine lib content)"
proof -
  have "distinct (keepFirstByKey {}
          (filter (\<lambda>cp. patternMatches engine content (snd cp)) (libraryPairs lib)))"
    using keepFirstByKey_keys distinct_map by blast
  then show ?thesis
    unfolding findingsInDeclaredOrder_def
    by (simp add: distinct_map inj_on_subset [OF inj_mkFinding subset_UNIV])
qed

lemma distinct_filter_le_1: "distinct xs \<Longrightarrow> length (filter (\<lambda>x. x = a) xs) \<le> 1"
  by (induction xs) (auto simp: filter_empty_conv)


section \<open>The two ways of ignoring case agree\<close>

text \<open>
  The engine compares canonical (upper-case) code units, the fallback and the words of
  the specification compare lower-case strings. On code units below 256 the two
  comparisons are the same.
\<close>

lemma of_char_toLowerCaseChar:
  "(of_char (toLowerCaseChar c) :: nat) =
     (if (65 \<le> (of_char c :: nat) \<and> (of_char c :: nat) \<le> 90)
          \<or> (192 \<le> (of_char c :: nat) \<and> (of_char c :: nat) \<le> 222 \<and> (of_char c :: nat) \<noteq> 215)
      then of_char c + 32 else of_char c)"
proof -
  have "(of_char c :: nat) \<le> 222 \<Longrightarrow> ((of_char c :: nat) + 32) mod 256 = of_char c + 32"
    by simp
  then show ?thesis
    unfolding toLowerCaseChar_def Let_def
    by (simp only: if_distrib [of of_char] of_char_of split: if_splits) auto
qed

lemma canonicalize_toLowerCaseChar: "canonicalize (toLowerCaseChar c) = canonicalize c"
proof -
  define n where "n = (of_char c :: nat)"
  have code: "(of_char (toLowerCaseChar c) :: nat) =
      (if (65 \<le> n \<and> n \<le> 90) \<or> (192 \<le> n \<and> n \<le> 222 \<and> n \<noteq> 215) then n + 32 else n)"
    unfolding n_def by (rule of_char_toLowerCaseChar)
  show ?thesis
    unfolding canonicalize_def Let_def code n_def [symmetric]
    by (simp split: if_splits)
qed

lemma toLowerCaseChar_of_canonicalize:
  "(of_char (toLowerCaseChar c) :: nat) =
     (let k = canonicalize c
      in if k = 924 then 181 else if k = 376 then 255
         else if (65 \<le> k \<and> k \<le> 90) \<or> (192 \<le> k \<and> k \<le> 222 \<and> k \<noteq> 215) then k + 32
         else k)"
proof -
  define n where "n = (of_char c :: nat)"
  define k where "k = canonicalize c"
  define l where "l = (of_char (toLowerCaseChar c) :: nat)"
  have bound: "n < 256"
    unfolding n_def by simp
  have code: "l = (if (65 \<le> n \<and> n \<le> 90) \<or> (192 \<le> n \<and> n \<le> 222 \<and> n \<noteq> 215)
      then n + 32 else n)"
    unfolding n_def l_def by (rule of_char_toLowerCaseChar)
  have canon: "k = (if (97 \<le> n \<and> n \<le> 122) \<or> (224 \<le> n \<and> n \<le> 254 \<and> n \<noteq> 247) then n - 32
       else if n = 181 then 924 else if n = 255 then 376 else n)"
    unfolding canonicalize_def Let_def n_def k_def ..
  have goal: "l = (if k = 924 then 181 else if k = 376 then 255
         else if (65 \<le> k \<and> k \<le> 90) \<or> (192 \<le> k \<and> k \<le> 222 \<and> k \<noteq> 215) then k + 32
         else k)"
  proof (cases "97 \<le> n \<and> n \<le> 122")
    case True
    then have "k = n - 32" "l = n"
      unfolding canon code by simp_all
    moreover from True have "65 \<le> n - 32" "n - 32 \<le> 90" "n - 32 + 32 = n"
      by linarith+
    ultimately show ?thesis by simp
  next
    case False
    note not_small = this
    show ?thesis
    proof (cases "224 \<le> n \<and> n \<le> 254 \<and> n \<noteq> 247")
      case True
      then have "k = n - 32" "l = n"
        unfolding canon code by simp_all
      moreover from True
      have "192 \<le> n - 32" "n - 32 \<le> 222" "n - 32 \<noteq> 215" "n - 32 + 32 = n"
        by linarith+
      ultimately show ?thesis by simp
    next
      case False
      note not_latin = this
      show ?thesis
      proof (cases "n = 181 \<or> n = 255")
        case True
        then show ?thesis
          unfolding canon code by auto
      next
        case False
        from not_small not_latin
        have "((97 \<le> n \<and> n \<le> 122) \<or> (224 \<le> n \<and> n \<le> 254 \<and> n \<noteq> 247)) = False"
          by blast
        moreover from False have "(n = 181) = False" "(n = 255) = False"
          by blast+
        ultimately have "k = n"
          unfolding canon by (simp only: if_False)
        moreover from bound have "n \<noteq> 924" "n \<noteq> 376"
          by simp_all
        ultimately show ?thesis
          unfolding code by simp
      qed
    qed
  qed
  show ?thesis
    unfolding Let_def using goal unfolding k_def l_def .
qed

lemma canonicalize_eq_iff:
  "canonicalize a = canonicalize b \<longleftrightarrow> toLowerCaseChar a = toLowerCaseChar b"
proof
  assume "canonicalize a = canonicalize b"
  then have "(of_char (toLowerCaseChar a) :: nat) = of_char (toLowerCaseChar b)"
    by (simp only: toLowerCaseChar_of_canonicalize)
  then show "toLowerCaseChar a = toLowerCaseChar b"
    by simp
next
  assume "toLowerCaseChar a = toLowerCaseChar b"
  then have "canonicalize (toLowerCaseChar a) = canonicalize (toLowerCaseChar b)"
    by simp
  then show "canonicalize a = canonicalize b"
    by (simp only: canonicalize_toLowerCaseChar)
qed

lemma map_canonicalize_eq_iff:
  "map canonicalize xs = map canonicalize ys \<longleftrightarrow> toLowerCase xs = toLowerCase ys"
proof (induction xs arbitrary: ys)
  case Nil
  show ?case by (simp add: toLowerCase_def)
next
  case (Cons x xs)
  show ?case
  proof (cases ys)
    case Nil
    then show ?thesis by (simp add: toLowerCase_def)
  next
    case (Cons y ys')
    with Cons.IH [of ys'] show ?thesis
      by (simp add: toLowerCase_def canonicalize_eq_iff)
  qed
qed

lemma run_of_mapped:
  "sublist (map f p) (map f content)
     \<longleftrightarrow> (\<exists>before run after. content = before @ run @ after \<and> map f run = map f p)"
proof
  assume "sublist (map f p) (map f content)"
  then obtain ps ss where "map f content = ps @ map f p @ ss"
    unfolding sublist_def by blast
  then obtain before rest where split: "content = before @ rest"
    and rest: "map f p @ ss = map f rest"
    unfolding map_eq_append_conv by blast
  from rest [symmetric] obtain run after where "rest = run @ after" "map f p = map f run"
    unfolding map_eq_append_conv by blast
  with split have "content = before @ run @ after \<and> map f run = map f p"
    by simp
  then show "\<exists>before run after. content = before @ run @ after \<and> map f run = map f p"
    by blast
next
  assume "\<exists>before run after. content = before @ run @ after \<and> map f run = map f p"
  then obtain before run after where "content = before @ run @ after" "map f run = map f p"
    by blast
  then have "map f content = map f before @ map f p @ map f after"
    by simp
  then show "sublist (map f p) (map f content)"
    unfolding sublist_def by blast
qed

lemma includesStr_toLowerCase_iff:
  "includesStr (toLowerCase content) (toLowerCase p) \<longleftrightarrow> caseInsensitiveSubstring p content"
  unfolding includesStr_def caseInsensitiveSubstring_def toLowerCase_def
  by (rule run_of_mapped)

lemma caseInsensitiveSubstring_sublist:
  "caseInsensitiveSubstring p content
     \<longleftrightarrow> sublist (map canonicalize p) (map canonicalize content)"
  unfolding caseInsensitiveSubstring_def run_of_mapped map_canonicalize_eq_iff ..

section \<open>Evaluation on concrete strings\<close>

lemma canonicalize_simps:
  "canonicalize c =
     (if (97 \<le> (of_char c :: nat) \<and> (of_char c :: nat) \<le> 122)
          \<or> (224 \<le> (of_char c :: nat) \<and> (of_char c :: nat) \<le> 254 \<and> (of_char c :: nat) \<noteq> 247)
      then (of_char c :: nat) - 32
      else if (of_char c :: nat) = 181 then 924
      else if (of_char c :: nat) = 255 then 376
      else of_char c)"
  by (simp add: canonicalize_def Let_def)

lemma char_eq_char_of_iff: "c = char_of n \<longleftrightarrow> take_bit 8 n = (of_char c :: nat)"
  using char_of_eq_iff [of n c] by auto

lemma matchHere_prefix:
  "matchHere lit input \<longleftrightarrow> prefix (map canonicalize lit) (map canonicalize input)"
  by (induction lit input rule: matchHere.induct) simp_all

lemma searchFrom_sublist:
  "searchFrom lit input \<longleftrightarrow> sublist (map canonicalize lit) (map canonicalize input)"
  by (induction input) (simp_all add: matchHere_prefix sublist_Cons_right)

lemma testDotStarIgnoreCase_needs_first:
  "testDotStarIgnoreCase a b input \<Longrightarrow> searchFrom a input"
  by (induction input) auto

lemmas search_eval = testAnyIgnoreCase_def searchFrom_sublist canonicalize_simps sublist_code
  newline_def dquote_def

lemmas decode_eval = bufferFromBase64ToLatin1_def base64Values_def map_filter_def unbase64_def
  MAX_STRING_LENGTH_def char_of_eq_iff Let_def

lemmas evidence_eval = analysisResultsInputForAI_def detailedLine_def numberToString_def
  natToString.simps char_of_eq_iff

lemma toLowerCaseChar_simps:
  "toLowerCaseChar c =
     (if (65 \<le> (of_char c :: nat) \<and> (of_char c :: nat) \<le> 90)
          \<or> (192 \<le> (of_char c :: nat) \<and> (of_char c :: nat) \<le> 222 \<and> (of_char c :: nat) \<noteq> 215)
      then char_of ((of_char c :: nat) + 32) else c)"
  by (simp add: toLowerCaseChar_def Let_def)

section \<open>The engine on escaped sources\<close>

lemma escaped_iff_syntaxCharacter:
  "(c \<in> set ''.*+?^${}()|[]'' \<or> c = backslash) \<longleftrightarrow> syntaxCharacter c"
  by (auto simp: syntaxCharacter_def)

lemma literalSource_plain:
  "\<not> syntaxCharacter c \<Longrightarrow> literalSource (c # cs) = map_option ((#) c) (literalSource cs)"
  by (cases cs) (auto simp: syntaxCharacter_def)

lemma literalSource_escapeRegExp: "literalSource (escapeRegExp p) = Some p"
proof (induction p)
  case Nil
  show ?case by (simp add: escapeRegExp_def)
next
  case (Cons c p)
  have step: "escapeRegExp (c # p) =
      (if syntaxCharacter c then backslash # c # escapeRegExp p else c # escapeRegExp p)"
    using escaped_iff_syntaxCharacter [of c] by (simp add: escapeRegExp_def)
  show ?case
  proof (cases "syntaxCharacter c")
    case True
    then show ?thesis
      by (simp add: step Cons.IH)
  next
    case False
    then show ?thesis
      by (simp add: step literalSource_plain Cons.IH)
  qed
qed

lemma searchFrom_iff: "searchFrom lit input \<longleftrightarrow> caseInsensitiveSubstring lit input"
  by (simp only: searchFrom_sublist caseInsensitiveSubstring_sublist)

lemma regExpTest_escapeRegExp:
  "regExpTest rest (escapeRegExp p) content = Some (caseInsensitiveSubstring p content)"
  by (simp add: regExpTest_def literalSource_escapeRegExp searchFrom_iff)

lemma patternMatches_literal:
  "patternMatches (regExpTest rest) content p = caseInsensitiveSubstring p content"
  by (simp add: patternMatches_def regExpTest_escapeRegExp)

lemma patternMatches_exampleEngine:
  "patternMatches exampleEngine content p
     \<longleftrightarrow> sublist (map canonicalize p) (map canonicalize content)"
  by (simp add: exampleEngine_def patternMatches_literal caseInsensitiveSubstring_sublist)

lemmas scan_eval = findMaliciousPatterns_closed findingsInDeclaredOrder_def
  patternMatches_exampleEngine libraryPairs_def exampleLibrary_def keyOf_def patternKey_def
  mkFinding_def canonicalize_simps sublist_code forInOrder_def isArrayIndex_def

section \<open>Findings are recorded once and in the order of the iteration\<close>

text \<open>
  C5. For every content and every library, one scan returns at most one finding for a
  pair of category and pattern, however often the pattern occurs in the content and
  however often the pair stands in the library.
\<close>

theorem findings_at_most_once_per_pair:
  "length (filter (\<lambda>f. f = \<lparr>pattern = p, category = c\<rparr>)
     (findMaliciousPatterns engine malwarePatterns content)) \<le> 1"
  by (simp only: findMaliciousPatterns_closed
        distinct_filter_le_1 [OF distinct_findingsInDeclaredOrder])




section \<open>The match is literal and ignores case\<close>




section \<open>The fallback when the engine throws\<close>

lemma keepFirstByKey_subset: "set (keepFirstByKey seen cps) \<subseteq> set cps"
  by (induction cps arbitrary: seen) auto

lemma keepFirstByKey_all_keys:
  "keyOf ` set (keepFirstByKey seen cps) \<union> seen = keyOf ` set cps \<union> seen"
proof (induction cps arbitrary: seen)
  case Nil
  show ?case by simp
next
  case (Cons cp cps)
  from Cons.IH [of seen] Cons.IH [of "insert (keyOf cp) seen"]
  show ?case by auto
qed

lemma finding_matches:
  assumes "\<lparr>pattern = p, category = c\<rparr> \<in> set (findingsInDeclaredOrder engine l content)"
  shows "patternMatches engine content p"
proof -
  from assms obtain cp
    where cp: "cp \<in> set (keepFirstByKey {}
        (filter (\<lambda>cp. patternMatches engine content (snd cp)) (libraryPairs l)))"
      and finding: "\<lparr>pattern = p, category = c\<rparr> = mkFinding cp"
    unfolding findingsInDeclaredOrder_def by auto
  from cp keepFirstByKey_subset have "patternMatches engine content (snd cp)"
    by fastforce
  moreover from finding have "snd cp = p"
    by (simp add: mkFinding_def)
  ultimately show ?thesis by simp
qed

lemma matching_key_recorded:
  assumes "(c, p) \<in> set (libraryPairs l)" and "patternMatches engine content p"
  shows "patternKey c p
     \<in> (\<lambda>f. patternKey (category f) (pattern f)) ` set (findingsInDeclaredOrder engine l content)"
proof -
  let ?matching = "filter (\<lambda>cp. patternMatches engine content (snd cp)) (libraryPairs l)"
  from assms have "keyOf (c, p) \<in> keyOf ` set ?matching"
    by force
  then have "keyOf (c, p) \<in> keyOf ` set (keepFirstByKey {} ?matching)"
    using keepFirstByKey_all_keys [of "{}" ?matching] by simp
  then obtain cp where "cp \<in> set (keepFirstByKey {} ?matching)" "keyOf cp = keyOf (c, p)"
    by auto
  then have "mkFinding cp \<in> set (findingsInDeclaredOrder engine l content)"
    "patternKey (category (mkFinding cp)) (pattern (mkFinding cp)) = patternKey c p"
    by (simp_all add: findingsInDeclaredOrder_def keyOf_def mkFinding_def)
  then show ?thesis
    by (metis (mono_tags, lifting) image_eqI)
qed

text \<open>
  C7. Take a pattern for which building or testing the expression throws. In a turn of
  the iteration that reaches the \<open>try\<close> (the key of the pair is not yet checked), content
  of at most 50 MB gets the lower-case substring test, and the finding is pushed and its
  key recorded exactly when that test finds the pattern, which is when the content
  contains the pattern up to case; with content of more than 50 MB the state is left as
  it is. For the whole scan, of every library: with content of more than 50 MB, or with
  content that does not contain the pattern, there is no finding of the pair; with
  content of at most 50 MB that contains the pattern, a finding with the composite key
  of the pair is recorded.
\<close>

theorem fallback_when_engine_throws:
  assumes "engine (escapeRegExp p) content = None"
  shows "(patternKey c p \<notin> ck \<longrightarrow>
           scanPattern engine content c (fs, ck) p =
             (if length content \<le> MAX_CONTENT_LENGTH_FOR_SCAN
                 \<and> includesStr (toLowerCase content) (toLowerCase p)
              then (fs @ [\<lparr>pattern = p, category = c\<rparr>], insert (patternKey c p) ck)
              else (fs, ck)))
     \<and> (includesStr (toLowerCase content) (toLowerCase p) \<longleftrightarrow> caseInsensitiveSubstring p content)
     \<and> (length content > MAX_CONTENT_LENGTH_FOR_SCAN \<longrightarrow>
           \<lparr>pattern = p, category = c\<rparr> \<notin> set (findMaliciousPatterns engine malwarePatterns content))
     \<and> (\<not> caseInsensitiveSubstring p content \<longrightarrow>
           \<lparr>pattern = p, category = c\<rparr> \<notin> set (findMaliciousPatterns engine malwarePatterns content))
     \<and> ((c, p) \<in> set (libraryPairs malwarePatterns)
           \<and> length content \<le> MAX_CONTENT_LENGTH_FOR_SCAN \<and> caseInsensitiveSubstring p content \<longrightarrow>
           patternKey c p \<in> (\<lambda>f. patternKey (category f) (pattern f))
             ` set (findMaliciousPatterns engine malwarePatterns content))"
proof -
  have matches: "patternMatches engine content p
      \<longleftrightarrow> length content \<le> MAX_CONTENT_LENGTH_FOR_SCAN \<and> caseInsensitiveSubstring p content"
    using assms by (auto simp: patternMatches_def includesStr_toLowerCase_iff)
  have step: "patternKey c p \<notin> ck \<longrightarrow>
      scanPattern engine content c (fs, ck) p =
        (if length content \<le> MAX_CONTENT_LENGTH_FOR_SCAN
            \<and> includesStr (toLowerCase content) (toLowerCase p)
         then (fs @ [\<lparr>pattern = p, category = c\<rparr>], insert (patternKey c p) ck)
         else (fs, ck))"
    using assms by (auto simp: scanPattern_def Let_def)
  have absent: "\<not> patternMatches engine content p \<Longrightarrow>
      \<lparr>pattern = p, category = c\<rparr> \<notin> set (findMaliciousPatterns engine malwarePatterns content)"
    using finding_matches [of p c engine "forInOrder malwarePatterns" content]
    by (auto simp: findMaliciousPatterns_closed)
  have present: "(c, p) \<in> set (libraryPairs malwarePatterns) \<Longrightarrow>
      patternMatches engine content p \<Longrightarrow>
      patternKey c p \<in> (\<lambda>f. patternKey (category f) (pattern f))
        ` set (findMaliciousPatterns engine malwarePatterns content)"
    using matching_key_recorded [of c p "forInOrder malwarePatterns" engine content]
    by (simp add: findMaliciousPatterns_closed set_libraryPairs_forInOrder)
  show ?thesis
    using step absent present matches
    by (simp add: includesStr_toLowerCase_iff)
qed

theorem fallback_when_engine_throws_witness:
  "findMaliciousPatterns sizeLimitedEngine longPatternLibrary ''run PowerShell -EncodedCommand now''
     = [\<lparr>pattern = ''powershell -encodedcommand'', category = ''Execution''\<rparr>]
   \<and> \<lparr>pattern = ''powershell -encodedcommand'', category = ''Execution''\<rparr>
     \<notin> set (findMaliciousPatterns sizeLimitedEngine longPatternLibrary ''run powershell now'')
   \<and> \<lparr>pattern = ''powershell -encodedcommand'', category = ''Execution''\<rparr>
     \<notin> set (findMaliciousPatterns sizeLimitedEngine longPatternLibrary
          (''powershell -encodedcommand'' @ replicate (50 * 1024 * 1024) (CHR ''a'')))"
proof -
  let ?p = "''powershell -encodedcommand''"
  have throws: "\<And>content. sizeLimitedEngine (escapeRegExp ?p) content = None"
    by (simp add: sizeLimitedEngine_def escapeRegExp_def)
  have "scanPattern sizeLimitedEngine ''run PowerShell -EncodedCommand now'' ''Execution'' ([], {}) ?p
      = ([\<lparr>pattern = ?p, category = ''Execution''\<rparr>], {patternKey ''Execution'' ?p})"
    using fallback_when_engine_throws
      [where engine = sizeLimitedEngine and content = "''run PowerShell -EncodedCommand now''"
         and p = ?p and c = "''Execution''" and ck = "{}" and fs = "[]", OF throws]
    by (simp add: MAX_CONTENT_LENGTH_FOR_SCAN_def includesStr_def toLowerCase_def
          toLowerCaseChar_simps sublist_code char_of_eq_iff char_eq_char_of_iff)
  then have first: "findMaliciousPatterns sizeLimitedEngine longPatternLibrary
      ''run PowerShell -EncodedCommand now'' = [\<lparr>pattern = ?p, category = ''Execution''\<rparr>]"
    by (simp add: findMaliciousPatterns_def scanCategory_def longPatternLibrary_def
          forInOrder_def isArrayIndex_def)
  have no_run: "\<not> caseInsensitiveSubstring ?p ''run powershell now''"
    by (simp add: caseInsensitiveSubstring_sublist canonicalize_simps sublist_code)
  have large: "length (?p @ replicate (50 * 1024 * 1024) (CHR ''a''))
      > MAX_CONTENT_LENGTH_FOR_SCAN"
    by (simp add: MAX_CONTENT_LENGTH_FOR_SCAN_def)
  show ?thesis
    using first no_run large
      fallback_when_engine_throws
        [where engine = sizeLimitedEngine and content = "''run powershell now''" and p = ?p
           and c = "''Execution''" and malwarePatterns = longPatternLibrary, OF throws]
      fallback_when_engine_throws
        [where engine = sizeLimitedEngine
           and content = "?p @ replicate (50 * 1024 * 1024) (CHR ''a'')" and p = ?p
           and c = "''Execution''" and malwarePatterns = longPatternLibrary, OF throws]
    by blast
qed

section \<open>The verdict of the caller\<close>

text \<open>
  C9. Whatever the server action returns or throws, the result that the caller records
  for the file has \<open>isMalicious\<close> true exactly when its findings are not empty, as long
  as no error is set on it; when an error is set, the file is marked malicious (unsafe)
  and its findings are empty.
\<close>

theorem verdict_follows_findings:
  "(error_r (handleAnalyze name outcome) = None \<longrightarrow>
      (isMalicious (handleAnalyze name outcome)
         \<longleftrightarrow> findings_r (handleAnalyze name outcome) \<noteq> []))
   \<and> (error_r (handleAnalyze name outcome) \<noteq> None \<longrightarrow>
      isMalicious (handleAnalyze name outcome) \<and> findings_r (handleAnalyze name outcome) = [])"
  by (cases outcome) (auto simp: handleAnalyze_def split: option.splits)

theorem verdict_follows_findings_witness:
  "isMalicious (handleAnalyze ''a.bin''
      (Inr \<lparr>findings = Some [\<lparr>pattern = ''mimikatz'', category = ''Credential Theft''\<rparr>],
            summary = Some ''Credential theft tooling was found.'', error = None\<rparr>))
   \<and> \<not> isMalicious (handleAnalyze ''b.bin''
      (Inr \<lparr>findings = Some [], summary = Some noPatternsSummary, error = None\<rparr>))
   \<and> isMalicious (handleAnalyze ''c.bin''
      (Inr \<lparr>findings = Some [],
            summary = Some ''Analysis could not be performed: File content is empty.'',
            error = Some ''File content appears to be empty after processing.''\<rparr>))
   \<and> findings_r (handleAnalyze ''c.bin''
      (Inr \<lparr>findings = Some [],
            summary = Some ''Analysis could not be performed: File content is empty.'',
            error = Some ''File content appears to be empty after processing.''\<rparr>)) = []"
proof -
  let ?hit = "Inr \<lparr>findings = Some [\<lparr>pattern = ''mimikatz'', category = ''Credential Theft''\<rparr>],
      summary = Some ''Credential theft tooling was found.'', error = None\<rparr>"
  let ?clean = "Inr \<lparr>findings = Some [], summary = Some noPatternsSummary, error = None\<rparr>"
  let ?failed = "Inr \<lparr>findings = Some [],
      summary = Some ''Analysis could not be performed: File content is empty.'',
      error = Some ''File content appears to be empty after processing.''\<rparr>"
  have "error_r (handleAnalyze ''a.bin'' ?hit) = None"
    "findings_r (handleAnalyze ''a.bin'' ?hit) \<noteq> []"
    "error_r (handleAnalyze ''b.bin'' ?clean) = None"
    "findings_r (handleAnalyze ''b.bin'' ?clean) = []"
    "error_r (handleAnalyze ''c.bin'' ?failed) \<noteq> None"
    by (simp_all add: handleAnalyze_def)
  then show ?thesis
    using verdict_follows_findings [of "''a.bin''" ?hit]
      verdict_follows_findings [of "''b.bin''" ?clean]
      verdict_follows_findings [of "''c.bin''" ?failed]
    by blast
qed

section \<open>The empty payload\<close>

text \<open>
  C6, as stated, fails: the check of the required fields comes first. A file of unknown
  type whose data URL has nothing after the comma has an empty payload, and so has a
  file whose content is the empty string; both are answered with the message for
  missing input, and the result carries no findings at all.
\<close>

theorem empty_payload_counterexample:
  "stripHeader (fileContent emptyUntypedFile) = []
   \<and> analyzeFileContent exampleLibrary exampleEngine bufferFromBase64ToLatin1 failingPrompt
       emptyUntypedFile
     = (\<lparr>findings = None, summary = None, error = Some ''Missing required input data.''\<rparr>, [])
   \<and> stripHeader (fileContent noContentFile) = []
   \<and> analyzeFileContent exampleLibrary exampleEngine bufferFromBase64ToLatin1 failingPrompt
       noContentFile
     = (\<lparr>findings = None, summary = None, error = Some ''Missing required input data.''\<rparr>, [])"
  by (simp add: emptyUntypedFile_def noContentFile_def stripHeader_def analyzeFileContent_def)

text \<open>
  C6, amended. For every input whose file name, content and content type are not empty
  and whose payload after the first comma is empty, the result has the error
  \<open>File content appears to be empty after processing.\<close>, a summary that says that the
  file content is empty, and the empty list of findings; it is the same for every
  library, engine, decoder and prompt, and nothing is sent to the prompt: there is no
  scan and no call of the summarizer. For every input with an empty required field the
  result is the error \<open>Missing required input data.\<close>, with no findings and no summary.
\<close>

theorem empty_payload_reported:
  "(fileName input \<noteq> [] \<and> fileContent input \<noteq> [] \<and> contentType input \<noteq> []
      \<and> stripHeader (fileContent input) = [] \<longrightarrow>
      analyzeFileContent malwarePatterns engine decode summarizeAnalysisResultsPrompt input
        = (\<lparr>findings = Some [],
            summary = Some ''Analysis could not be performed: File content is empty.'',
            error = Some ''File content appears to be empty after processing.''\<rparr>, []))
   \<and> (fileName input = [] \<or> fileContent input = [] \<or> contentType input = [] \<longrightarrow>
      analyzeFileContent malwarePatterns engine decode summarizeAnalysisResultsPrompt input
        = (\<lparr>findings = None, summary = None, error = Some ''Missing required input data.''\<rparr>,
           []))"
  by (simp add: analyzeFileContent_def)

theorem empty_payload_reported_witness:
  "analyzeFileContent exampleLibrary exampleEngine bufferFromBase64ToLatin1 failingPrompt
     emptyTextFile
   = (\<lparr>findings = Some [],
       summary = Some ''Analysis could not be performed: File content is empty.'',
       error = Some ''File content appears to be empty after processing.''\<rparr>, [])
   \<and> analyzeFileContent exampleLibrary exampleEngine bufferFromBase64ToLatin1 failingPrompt
       \<lparr>fileName = [], fileContent = ''data:text/plain;base64,aGVsbG8='',
        contentType = ''text/plain''\<rparr>
     = (\<lparr>findings = None, summary = None, error = Some ''Missing required input data.''\<rparr>, [])"
proof -
  have "fileName emptyTextFile \<noteq> [] \<and> fileContent emptyTextFile \<noteq> []
      \<and> contentType emptyTextFile \<noteq> [] \<and> stripHeader (fileContent emptyTextFile) = []"
    by (simp add: emptyTextFile_def stripHeader_def)
  moreover have "fileName \<lparr>fileName = [], fileContent = ''data:text/plain;base64,aGVsbG8='',
      contentType = ''text/plain''\<rparr> = []"
    by simp
  ultimately show ?thesis
    using empty_payload_reported
        [of emptyTextFile exampleLibrary exampleEngine bufferFromBase64ToLatin1 failingPrompt]
      empty_payload_reported
        [of "\<lparr>fileName = [], fileContent = ''data:text/plain;base64,aGVsbG8='',
              contentType = ''text/plain''\<rparr>"
            exampleLibrary exampleEngine bufferFromBase64ToLatin1 failingPrompt]
    by blast
qed

section \<open>Decoding does not fall back\<close>

lemma length_groupBytes: "length (groupBytes vs) \<le> length vs"
  by (induction vs rule: groupBytes.induct) simp_all

lemma length_base64Values: "length (base64Values s) \<le> length s"
proof -
  have "length (base64Values s) \<le> length (takeWhile (\<lambda>c. c \<noteq> CHR ''='') s)"
    by (simp add: base64Values_def map_filter_def)
  also have "\<dots> \<le> length s"
    by (rule length_takeWhile_le)
  finally show ?thesis .
qed

lemma length_stripHeader: "length (stripHeader s) \<le> length s"
proof (cases "dropWhile (\<lambda>c. c \<noteq> CHR '','') s")
  case Nil
  show ?thesis
    unfolding stripHeader_def Nil by simp
next
  case (Cons comma base64Data)
  have "length (dropWhile (\<lambda>c. c \<noteq> CHR '','') s) \<le> length s"
    by (rule length_dropWhile_le)
  then show ?thesis
    unfolding stripHeader_def Cons by simp
qed

lemma bufferFromBase64ToLatin1_total:
  assumes "length s \<le> MAX_STRING_LENGTH"
  shows "bufferFromBase64ToLatin1 s = Inr (map char_of (groupBytes (base64Values s)))"
proof -
  have "length (groupBytes (base64Values s)) \<le> length s"
    using length_groupBytes [of "base64Values s"] length_base64Values [of s] by simp
  with assms show ?thesis
    by (simp add: bufferFromBase64ToLatin1_def Let_def)
qed

lemma summarizeAnalysisResults_not_Inl:
  "fst (summarizeAnalysisResults summarizeAnalysisResultsPrompt analysisResults) \<noteq> Inl e"
  by (simp add: summarizeAnalysisResults_def Let_def)

lemma findings_of_analysis:
  assumes "fileName input \<noteq> []" and "contentType input \<noteq> []"
    and "stripHeader (fileContent input) \<noteq> []"
  shows "findings (fst (analyzeFileContent malwarePatterns engine decode
            summarizeAnalysisResultsPrompt input))
       = Some (findMaliciousPatterns engine malwarePatterns
           (fileDataToScan (decodePayload decode (stripHeader (fileContent input)))))"
proof -
  have content: "fileContent input \<noteq> []"
    using assms(3) by (auto simp: stripHeader_def)
  show ?thesis
    using assms content
    by (simp add: analyzeFileContent_def Let_def summarizeAnalysisResults_not_Inl
          split: sum.splits)
qed

text \<open>
  C3. With the decoder of the runtime, which skips what is not base64 and whose only
  failure is a result longer than the longest string, the decoding of a payload that is
  not empty never throws: the input is a string of the runtime, so not longer than its
  longest string, and the decoded bytes are not more than the characters of the
  payload. The outcome is the decoded text with \<open>decodedSuccessfully\<close> true and no
  \<open>decodeError\<close>, and the findings that the action returns are those of the scan of
  the decoded text, not of the payload.
\<close>

theorem decode_never_falls_back:
  assumes "fileName input \<noteq> []" and "contentType input \<noteq> []"
    and "stripHeader (fileContent input) \<noteq> []"
    and "length (fileContent input) \<le> MAX_STRING_LENGTH"
  shows "bufferFromBase64ToLatin1 (stripHeader (fileContent input))
       = Inr (map char_of (groupBytes (base64Values (stripHeader (fileContent input)))))
     \<and> decodePayload bufferFromBase64ToLatin1 (stripHeader (fileContent input))
       = \<lparr>fileDataToScan = map char_of (groupBytes (base64Values (stripHeader (fileContent input)))),
          decodedSuccessfully = True, decodeError = None\<rparr>
     \<and> findings (fst (analyzeFileContent malwarePatterns engine bufferFromBase64ToLatin1
            summarizeAnalysisResultsPrompt input))
       = Some (findMaliciousPatterns engine malwarePatterns
           (map char_of (groupBytes (base64Values (stripHeader (fileContent input))))))"
proof -
  have "length (stripHeader (fileContent input)) \<le> MAX_STRING_LENGTH"
    using length_stripHeader [of "fileContent input"] assms(4) by simp
  then have decoded: "bufferFromBase64ToLatin1 (stripHeader (fileContent input))
      = Inr (map char_of (groupBytes (base64Values (stripHeader (fileContent input)))))"
    by (rule bufferFromBase64ToLatin1_total)
  then have outcome: "decodePayload bufferFromBase64ToLatin1 (stripHeader (fileContent input))
      = \<lparr>fileDataToScan = map char_of (groupBytes (base64Values (stripHeader (fileContent input)))),
         decodedSuccessfully = True, decodeError = None\<rparr>"
    by (simp add: decodePayload_def)
  show ?thesis
    using decoded outcome
      findings_of_analysis [OF assms(1,2,3), of malwarePatterns engine bufferFromBase64ToLatin1
        summarizeAnalysisResultsPrompt]
    by simp
qed

lemma strip_hello: "stripHeader ''data:text/plain;base64,aGVsbG8='' = ''aGVsbG8=''"
  by (simp add: stripHeader_def)

lemma strip_malformed:
  "stripHeader ''data:text/plain;base64,@@ not base64 @@'' = ''@@ not base64 @@''"
  by (simp add: stripHeader_def)

lemma scan_hello: "findMaliciousPatterns exampleEngine exampleLibrary ''hello'' = []"
  by (simp add: scan_eval)

theorem decode_never_falls_back_witness:
  "decodePayload bufferFromBase64ToLatin1 (stripHeader (fileContent helloFile))
     = \<lparr>fileDataToScan = ''hello'', decodedSuccessfully = True, decodeError = None\<rparr>
   \<and> findings (fst (analyzeFileContent exampleLibrary exampleEngine bufferFromBase64ToLatin1
          failingPrompt helloFile)) = Some []
   \<and> findings (fst (analyzeFileContent exampleLibrary exampleEngine bufferFromBase64ToLatin1
          failingPrompt threatFile))
     = Some [\<lparr>pattern = ''mimikatz'', category = ''Credential Theft''\<rparr>,
             \<lparr>pattern = ''reverse shell'', category = ''Reverse Shell''\<rparr>]
   \<and> decodedSuccessfully
        (decodePayload bufferFromBase64ToLatin1 (stripHeader (fileContent malformedFile)))
   \<and> decodeError
        (decodePayload bufferFromBase64ToLatin1 (stripHeader (fileContent malformedFile))) = None"
proof -
  have hello: "fileName helloFile \<noteq> []" "contentType helloFile \<noteq> []"
    "stripHeader (fileContent helloFile) \<noteq> []"
    "length (fileContent helloFile) \<le> MAX_STRING_LENGTH"
    by (simp_all add: helloFile_def strip_hello MAX_STRING_LENGTH_def)
  have threat: "fileName threatFile \<noteq> []" "contentType threatFile \<noteq> []"
    "stripHeader (fileContent threatFile) \<noteq> []"
    "length (fileContent threatFile) \<le> MAX_STRING_LENGTH"
    by (simp_all add: threatFile_def stripHeader_def MAX_STRING_LENGTH_def)
  have malformed: "fileName malformedFile \<noteq> []" "contentType malformedFile \<noteq> []"
    "stripHeader (fileContent malformedFile) \<noteq> []"
    "length (fileContent malformedFile) \<le> MAX_STRING_LENGTH"
    by (simp_all add: malformedFile_def strip_malformed MAX_STRING_LENGTH_def)
  have decoded_hello:
    "map char_of (groupBytes (base64Values (stripHeader (fileContent helloFile)))) = ''hello''"
    by (simp add: helloFile_def strip_hello decode_eval)
  have decoded_threat:
    "map char_of (groupBytes (base64Values (stripHeader (fileContent threatFile))))
      = ''run mimikatz then open a reverse shell''"
    by (simp add: threatFile_def stripHeader_def decode_eval)
  have scan_threat_text:
    "findMaliciousPatterns exampleEngine exampleLibrary ''run mimikatz then open a reverse shell''
      = [\<lparr>pattern = ''mimikatz'', category = ''Credential Theft''\<rparr>,
         \<lparr>pattern = ''reverse shell'', category = ''Reverse Shell''\<rparr>]"
    by (simp add: scan_eval)
  show ?thesis
    using decode_never_falls_back [OF hello, of exampleLibrary exampleEngine failingPrompt]
      decode_never_falls_back [OF threat, of exampleLibrary exampleEngine failingPrompt]
      decode_never_falls_back [OF malformed, of exampleLibrary exampleEngine failingPrompt]
    by (simp add: decoded_hello decoded_threat scan_hello scan_threat_text)
qed

section \<open>The override of the summary\<close>

lemma strip_crypto:
  "stripHeader ''data:application/octet-stream;base64,QUVTIERFUw=='' = ''QUVTIERFUw==''"
  by (simp add: stripHeader_def)

lemma decode_crypto: "bufferFromBase64ToLatin1 ''QUVTIERFUw=='' = Inr ''AES DES''"
  by (simp add: decode_eval)

lemma scan_crypto:
  "findMaliciousPatterns exampleEngine exampleLibrary ''AES DES''
     = [\<lparr>pattern = ''AES'', category = ''Encoding/Decoding''\<rparr>,
        \<lparr>pattern = ''DES'', category = ''Encoding/Decoding''\<rparr>]"
  by (simp add: scan_eval)

lemma evidence_crypto:
  "analysisResultsInputForAI
     \<lparr>fileDataToScan = ''AES DES'', decodedSuccessfully = True, decodeError = None\<rparr>
     [\<lparr>pattern = ''AES'', category = ''Encoding/Decoding''\<rparr>,
      \<lparr>pattern = ''DES'', category = ''Encoding/Decoding''\<rparr>] = cryptoEvidence"
  by (simp add: evidence_eval cryptoEvidence_def)

lemma no_identifier_crypto: "\<not> includesStr cryptoEvidence ''analysisResults''"
  by (simp add: includesStr_def cryptoEvidence_def sublist_code newline_def dquote_def)

lemma no_vocabulary_crypto: "\<not> testAnyIgnoreCase threatVocabulary cryptoSummary"
  by (simp add: search_eval threatVocabulary_def cryptoSummary_def)

lemma tokens_crypto: "testAnyIgnoreCase [''AES'', ''DES'', ''RSA'', ''Base64''] cryptoEvidence"
  by (simp add: search_eval cryptoEvidence_def)

lemma no_context_crypto:
  "\<not> testAnyIgnoreCase [''malicious use'', ''obfuscate'', ''hide C2'', ''ransomware behavior'']
       cryptoEvidence"
  by (simp add: search_eval cryptoEvidence_def)

lemma not_clean_crypto:
  "\<not> testAnyIgnoreCase [''No known malicious patterns detected''] cryptoEvidence"
  by (simp add: search_eval cryptoEvidence_def)

lemma not_raw_clean_crypto:
  "\<not> testDotStarIgnoreCase ''No known malicious patterns detected'' ''performed on raw Base64''
       cryptoEvidence"
  using not_clean_crypto testDotStarIgnoreCase_needs_first
  by (auto simp: testAnyIgnoreCase_def)

lemma summarize_crypto:
  "summarizeAnalysisResults cryptoPrompt cryptoEvidence
     = (Inr cryptoSummary, [cryptoEvidence])"
  by (simp add: summarizeAnalysisResults_def not_clean_crypto not_raw_clean_crypto
        summarizeAnalysisResultsFlow_def cryptoPrompt_def overrideGuard_def no_identifier_crypto)

text \<open>
  C1 is what the guard is written for, and the code misses it. A file whose content is
  \<open>AES DES\<close> has two findings, both under \<open>Encoding/Decoding\<close>; the external summary
  has no word of the threat vocabulary; the evidence has the tokens and no phrase of
  malicious context. The summary of the result is still the external one, not the fixed
  message: the guard also asks that the evidence contain the word \<open>analysisResults\<close>,
  which the evidence built by the action does not.
\<close>

theorem crypto_summary_not_replaced:
  "analyzeFileContent exampleLibrary exampleEngine bufferFromBase64ToLatin1 cryptoPrompt cryptoFile
     = (\<lparr>findings = Some [\<lparr>pattern = ''AES'', category = ''Encoding/Decoding''\<rparr>,
                          \<lparr>pattern = ''DES'', category = ''Encoding/Decoding''\<rparr>],
         summary = Some cryptoSummary, error = None\<rparr>,
        [cryptoEvidence])
   \<and> \<not> testAnyIgnoreCase threatVocabulary cryptoSummary
   \<and> testAnyIgnoreCase [''AES'', ''DES'', ''RSA'', ''Base64''] cryptoEvidence
   \<and> \<not> testAnyIgnoreCase [''malicious use'', ''obfuscate'', ''hide C2'', ''ransomware behavior'']
         cryptoEvidence
   \<and> \<not> includesStr cryptoEvidence ''analysisResults''
   \<and> cryptoSummary \<noteq> noSignificantThreats"
proof -
  have "analyzeFileContent exampleLibrary exampleEngine bufferFromBase64ToLatin1 cryptoPrompt
      cryptoFile
    = (\<lparr>findings = Some [\<lparr>pattern = ''AES'', category = ''Encoding/Decoding''\<rparr>,
                         \<lparr>pattern = ''DES'', category = ''Encoding/Decoding''\<rparr>],
        summary = Some cryptoSummary, error = None\<rparr>,
       [cryptoEvidence])"
    by (simp add: analyzeFileContent_def cryptoFile_def strip_crypto decodePayload_def
          decode_crypto scan_crypto evidence_crypto summarize_crypto)
  moreover have "cryptoSummary \<noteq> noSignificantThreats"
    by (simp add: cryptoSummary_def noSignificantThreats_def)
  ultimately show ?thesis
    using no_vocabulary_crypto tokens_crypto no_context_crypto no_identifier_crypto by simp
qed

section \<open>The summary when the prompt fails\<close>

lemma strip_threat:
  "stripHeader ''data:application/octet-stream;base64,cnVuIG1pbWlrYXR6IHRoZW4gb3BlbiBhIHJldmVyc2Ugc2hlbGw=''
     = ''cnVuIG1pbWlrYXR6IHRoZW4gb3BlbiBhIHJldmVyc2Ugc2hlbGw=''"
  by (simp add: stripHeader_def)

lemma decode_threat:
  "bufferFromBase64ToLatin1 ''cnVuIG1pbWlrYXR6IHRoZW4gb3BlbiBhIHJldmVyc2Ugc2hlbGw=''
     = Inr ''run mimikatz then open a reverse shell''"
  by (simp add: decode_eval)

lemma scan_threat:
  "findMaliciousPatterns exampleEngine exampleLibrary ''run mimikatz then open a reverse shell''
     = [\<lparr>pattern = ''mimikatz'', category = ''Credential Theft''\<rparr>,
        \<lparr>pattern = ''reverse shell'', category = ''Reverse Shell''\<rparr>]"
  by (simp add: scan_eval)

lemma evidence_threat:
  "analysisResultsInputForAI
     \<lparr>fileDataToScan = ''run mimikatz then open a reverse shell'', decodedSuccessfully = True,
      decodeError = None\<rparr>
     [\<lparr>pattern = ''mimikatz'', category = ''Credential Theft''\<rparr>,
      \<lparr>pattern = ''reverse shell'', category = ''Reverse Shell''\<rparr>] = threatEvidence"
  by (simp add: evidence_eval threatEvidence_def)

lemma not_clean_threat:
  "\<not> testAnyIgnoreCase [''No known malicious patterns detected''] threatEvidence"
  by (simp add: search_eval threatEvidence_def)

lemma not_raw_clean_threat:
  "\<not> testDotStarIgnoreCase ''No known malicious patterns detected'' ''performed on raw Base64''
       threatEvidence"
  using not_clean_threat testDotStarIgnoreCase_needs_first
  by (auto simp: testAnyIgnoreCase_def)

lemma lines_threat: "numberToString (splitLinesLength threatEvidence - 2) = ''1''"
  by (simp add: splitLinesLength_def threatEvidence_def numberToString_def natToString.simps
        newline_def dquote_def char_of_eq_iff)

lemma summarize_threat:
  "summarizeAnalysisResults failingPrompt threatEvidence
     = (Inr ''Analysis detected 1 potential patterns. However, an error occurred while generating a detailed summary: quota exceeded'',
        [threatEvidence])"
  by (simp add: summarizeAnalysisResults_def not_clean_threat not_raw_clean_threat
        summarizeAnalysisResultsFlow_def failingPrompt_def messageOr_def lines_threat)

text \<open>
  C8 holds but for the number. A file with \<open>mimikatz\<close> and \<open>reverse shell\<close> has two
  findings; the prompt throws \<open>quota exceeded\<close>. The action returns both findings and no
  error, and the summary names the reason, but it says that one pattern was detected:
  the flow counts the lines of the evidence and subtracts two, where the evidence has
  one line of heading.
\<close>

theorem fallback_summary_counts_one_less:
  "analyzeFileContent exampleLibrary exampleEngine bufferFromBase64ToLatin1 failingPrompt threatFile
     = (\<lparr>findings = Some [\<lparr>pattern = ''mimikatz'', category = ''Credential Theft''\<rparr>,
                          \<lparr>pattern = ''reverse shell'', category = ''Reverse Shell''\<rparr>],
         summary = Some ''Analysis detected 1 potential patterns. However, an error occurred while generating a detailed summary: quota exceeded'',
         error = None\<rparr>,
        [threatEvidence])"
  by (simp add: analyzeFileContent_def threatFile_def strip_threat decodePayload_def
        decode_threat scan_threat evidence_threat summarize_threat)

section \<open>The summary when nothing is found\<close>








end
